theory Spec2Isabelle
  imports Main
begin

section \<open>JavaScript values\<close>

text \<open>
  The values that flow through \<^verbatim>\<open>httpFetch.ts\<close>: decoded bodies, header objects, query
  parameters and the faults a promise rejects with. Numbers are left open as the type
  parameter \<open>'n\<close>: no function of the module computes with them. Arrays and the objects
  inside a value are values: no statement of the module assigns into one.
  \<open>JExn name message\<close> is a host exception object such as the \<^verbatim>\<open>TypeError\<close> a failed
  \<^verbatim>\<open>fetch\<close> rejects with; the messages of the errors the module itself provokes are
  the engine's and are left empty.
\<close>

datatype 'n jsval =
    JUndefined
  | JNull
  | JBool bool
  | JNum 'n
  | JStr string
  | JArray "'n jsval list"
  | JObject "(string \<times> 'n jsval) list"
  | JExn string string

definition TypeError :: "'n jsval" where
  "TypeError = JExn ''TypeError'' []"


text \<open>
  Truthiness. \<open>nonzero\<close> is the host's test that a number is neither zero nor
  \<^verbatim>\<open>NaN\<close>.
\<close>

fun ToBoolean :: "('n \<Rightarrow> bool) \<Rightarrow> 'n jsval \<Rightarrow> bool" where
  "ToBoolean nonzero JUndefined = False"
| "ToBoolean nonzero JNull = False"
| "ToBoolean nonzero (JBool b) = b"
| "ToBoolean nonzero (JNum n) = nonzero n"
| "ToBoolean nonzero (JStr t) = (t \<noteq> [])"
| "ToBoolean nonzero v = True"

section \<open>Objects\<close>

text \<open>
  The own enumerable properties of an object, in the order the engine enumerates them:
  the array indices (canonical decimal strings below \<open>2\<^sup>3\<^sup>2 - 1\<close>) in ascending order, then
  the other keys in the order of their creation.
\<close>

type_synonym 'n obj = "(string \<times> 'n jsval) list"

definition is_digit :: "char \<Rightarrow> bool" where
  "is_digit c = (c \<in> set ''0123456789'')"

definition digit_value :: "char \<Rightarrow> nat" where
  "digit_value c = length (takeWhile (\<lambda>d. d \<noteq> c) ''0123456789'')"

definition index_value :: "string \<Rightarrow> nat" where
  "index_value k = foldl (\<lambda>n c. 10 * n + digit_value c) 0 k"

definition is_index :: "string \<Rightarrow> bool" where
  "is_index k =
     (k \<noteq> [] \<and> list_all is_digit k \<and> (k = ''0'' \<or> hd k \<noteq> CHR ''0'')
      \<and> index_value k < 4294967295)"

text \<open>\<open>key_before a b\<close>: an object that has both keys may enumerate \<open>a\<close> before \<open>b\<close>.\<close>

definition key_before :: "string \<Rightarrow> string \<Rightarrow> bool" where
  "key_before a b = (if is_index b then is_index a \<and> index_value a < index_value b else True)"


text \<open>A new own property takes its place in that order.\<close>

fun own_insert :: "string \<Rightarrow> 'n jsval \<Rightarrow> 'n obj \<Rightarrow> 'n obj" where
  "own_insert k v [] = [(k, v)]"
| "own_insert k v ((k', v') # rest) =
     (if key_before k' k then (k', v') # own_insert k v rest else (k, v) # (k', v') # rest)"

text \<open>
  Writing an own data property: an existing property keeps its place and takes the
  value, a new one is created.
\<close>

definition obj_define :: "'n obj \<Rightarrow> string \<Rightarrow> 'n jsval \<Rightarrow> 'n obj" where
  "obj_define ob k v =
     (if k \<in> set (map fst ob)
      then map (\<lambda>(k', v'). if k' = k then (k', v) else (k', v')) ob
      else own_insert k v ob)"

text \<open>\<^verbatim>\<open>delete o[k]\<close>.\<close>

definition obj_delete :: "'n obj \<Rightarrow> string \<Rightarrow> 'n obj" where
  "obj_delete ob k = filter (\<lambda>(k', v'). k' \<noteq> k) ob"

text \<open>
  The assignment \<^verbatim>\<open>o[k] = v\<close> on an object created by \<^verbatim>\<open>{}\<close>, for \<open>v\<close> a string: a
  key the object has takes the value; the key \<^verbatim>\<open>__proto__\<close> reaches the setter of
  \<^verbatim>\<open>Object.prototype\<close>, which ignores a string; any other key is created.
\<close>

definition set_string_property :: "'n obj \<Rightarrow> string \<Rightarrow> string \<Rightarrow> 'n obj" where
  "set_string_property ob k t =
     (if k \<in> set (map fst ob) then obj_define ob k (JStr t)
      else if k = ''__proto__'' then ob
      else obj_define ob k (JStr t))"

text \<open>
  An object of the store: its own properties and its prototype, \<open>None\<close> for
  \<^verbatim>\<open>Object.prototype\<close> and \<open>Some es\<close> for an array of elements \<open>es\<close>. The module reads the
  prototype of one object only, \<open>paramsAsArray\<close>, which can get no other.
\<close>

record 'n object =
  own :: "'n obj"
  proto :: "'n jsval list option"

text \<open>
  The assignment \<^verbatim>\<open>o[k] = v\<close> for \<open>v\<close> an array of elements \<open>es\<close>: through the setter of
  \<^verbatim>\<open>Object.prototype\<close>, the array becomes the prototype when the key is \<^verbatim>\<open>__proto__\<close>.
\<close>

definition set_array_property :: "'n object \<Rightarrow> string \<Rightarrow> 'n jsval list \<Rightarrow> 'n object" where
  "set_array_property ob k es =
     (if k \<in> set (map fst (own ob)) then ob\<lparr>own := obj_define (own ob) k (JArray es)\<rparr>
      else if k = ''__proto__'' then ob\<lparr>proto := Some es\<rparr>
      else ob\<lparr>own := obj_define (own ob) k (JArray es)\<rparr>)"

definition digit_char :: "nat \<Rightarrow> char" where
  "digit_char d = ''0123456789'' ! d"

function string_of_nat :: "nat \<Rightarrow> string" where
  "string_of_nat n =
     (if n < 10 then [digit_char n] else string_of_nat (n div 10) @ [digit_char (n mod 10)])"
  by pat_completeness auto
termination
  by (relation "measure id") auto

text \<open>
  What \<^verbatim>\<open>for (let k in o)\<close> visits, each key with the value \<^verbatim>\<open>o[k]\<close>: the own properties,
  then the indices of an array prototype that no own key hides. \<^verbatim>\<open>Array.prototype\<close> and
  \<^verbatim>\<open>Object.prototype\<close> have no enumerable property.
\<close>

definition forin_entries :: "'n object \<Rightarrow> (string \<times> 'n jsval) list" where
  "forin_entries ob =
     own ob @
     (case proto ob of
        None \<Rightarrow> []
      | Some es \<Rightarrow>
          filter (\<lambda>(k, v). k \<notin> set (map fst (own ob)))
            (zip (map string_of_nat [0..<length es]) es))"

section \<open>Constants of the module\<close>

definition Status_Ok :: int where "Status_Ok = 200"
definition Status_Unassigned :: int where "Status_Unassigned = 299"
definition Status_BadRequest :: int where "Status_BadRequest = 400"
definition Status_Unauthorized :: int where "Status_Unauthorized = 401"
definition Status_NotFound :: int where "Status_NotFound = 404"

definition Methods_Get :: string where "Methods_Get = ''GET''"
definition Methods_Post :: string where "Methods_Post = ''POST''"
definition Methods_Put :: string where "Methods_Put = ''PUT''"
definition Methods_Delete :: string where "Methods_Delete = ''DELETE''"

definition Headers :: "'n jsval" where
  "Headers = JObject [(''Accept'', JStr ''application/json''),
                      (''Content-Type'', JStr ''application/json''),
                      (''X-Requested-With'', JStr ''fetch'')]"

definition Credentials_SameOrigin :: string where "Credentials_SameOrigin = ''same-origin''"

section \<open>Response classes\<close>

text \<open>
  \<^verbatim>\<open>AppError\<close> and its three subclasses share the fields \<^verbatim>\<open>body\<close> and \<^verbatim>\<open>headers\<close>; \<open>cls\<close> is
  the class the object was constructed with. Every instance is \<^verbatim>\<open>instanceof AppError\<close>;
  it is \<^verbatim>\<open>instanceof UnauthorizedError\<close> iff \<open>cls\<close> is \<open>UnauthorizedError\<close>, and its
  \<^verbatim>\<open>constructor === AppError\<close> iff \<open>cls\<close> is \<open>AppError\<close>.
\<close>

datatype error_class = AppError | BadRequestError | UnauthorizedError | NotFoundError

record 'n app_error =
  cls :: error_class
  body :: "'n jsval"
  headers :: "'n jsval"

record 'n app_response =
  response_body :: "'n jsval"
  response_headers :: "'n jsval"

text \<open>
  What is thrown, or what a promise rejects with: an instance of \<^verbatim>\<open>AppError\<close> (or of a
  subclass), or any other value. A settled promise and a call that may throw are sums,
  \<open>Inl\<close> the rejection or the exception.
\<close>

datatype 'n thrown = Typed "'n app_error" | Raw "'n jsval"

text \<open>
  \<^verbatim>\<open>Result\<close>. The field \<^verbatim>\<open>error\<close> holds what the constructor is given, whatever it is; an
  omitted argument leaves it \<^verbatim>\<open>undefined\<close>.
\<close>

record 'n result =
  succeeded :: bool
  payload :: "'n jsval"
  error :: "'n thrown"

text \<open>A default parameter \<^verbatim>\<open>(x = null)\<close> replaces an \<^verbatim>\<open>undefined\<close> argument by \<^verbatim>\<open>null\<close>.\<close>

definition default_null :: "'n jsval \<Rightarrow> 'n jsval" where
  "default_null v = (if v = JUndefined then JNull else v)"

text \<open>\<^verbatim>\<open>new C(body, headers)\<close> for \<open>C\<close> one of the four error classes.\<close>

definition new_error :: "error_class \<Rightarrow> 'n jsval \<Rightarrow> 'n jsval \<Rightarrow> 'n app_error" where
  "new_error c b h = \<lparr>cls = c, body = default_null b, headers = default_null h\<rparr>"

definition new_AppResponse :: "'n jsval \<Rightarrow> 'n jsval \<Rightarrow> 'n app_response" where
  "new_AppResponse b h = \<lparr>response_body = default_null b, response_headers = default_null h\<rparr>"

section \<open>Promises and the transport\<close>

text \<open>
  The response \<^verbatim>\<open>fetch\<close> resolves with: its status, its headers as \<^verbatim>\<open>Headers.forEach\<close>
  enumerates them, and what \<^verbatim>\<open>response.text()\<close> settles with (\<open>Inl\<close> when reading the body
  fails).
\<close>

record 'n response =
  status :: int
  raw_headers :: "(string \<times> string) list"
  body_text :: "'n jsval + string"

text \<open>
  The body argument of a verb, and the body of a request: a \<^verbatim>\<open>FormData\<close>, a \<^verbatim>\<open>Blob\<close>, or
  any other value.
\<close>

datatype 'n request_body = FormData string | Blob string | Value "'n jsval"

text \<open>The arguments of \<^verbatim>\<open>fetch\<close>; a request without a body has the body \<^verbatim>\<open>undefined\<close>.\<close>

record 'n request =
  req_url :: string
  req_method :: string
  req_credentials :: string
  req_headers :: "'n jsval"
  req_body :: "'n request_body"

definition promise_then :: "('e + 'a) \<Rightarrow> ('a \<Rightarrow> 'e + 'b) \<Rightarrow> 'e + 'b" where
  "promise_then p f = (case p of Inl e \<Rightarrow> Inl e | Inr x \<Rightarrow> f x)"

definition promise_catch :: "('e + 'a) \<Rightarrow> ('e \<Rightarrow> 'f + 'a) \<Rightarrow> 'f + 'a" where
  "promise_catch p f = (case p of Inl e \<Rightarrow> f e | Inr x \<Rightarrow> Inr x)"

section \<open>Body codec and header normalizer\<close>

text \<open>
  \<^verbatim>\<open>parseBody\<close>. The host's \<^verbatim>\<open>JSON.parse\<close> is the parameter \<open>JSON_parse\<close>, \<open>None\<close> when it
  throws.
\<close>

definition parseBody :: "(string \<Rightarrow> 'n jsval option) \<Rightarrow> string \<Rightarrow> 'n jsval" where
  "parseBody JSON_parse bodyText =
     (case JSON_parse bodyText of
        Some parsed \<Rightarrow> parsed
      | None \<Rightarrow> if bodyText \<noteq> [] then JObject [(''bodyText'', JStr bodyText)] else JObject [])"

text \<open>
  \<^verbatim>\<open>stringifyBody\<close>. The host's \<^verbatim>\<open>JSON.stringify\<close> is the parameter \<open>JSON_stringify\<close>: it
  returns a string or \<^verbatim>\<open>undefined\<close>, or throws (\<open>Inl\<close>). A body may have methods and
  cycles that its value here does not show; what \<^verbatim>\<open>JSON.stringify\<close> makes of them is in
  the parameter.
\<close>

definition stringifyBody ::
  "('n jsval \<Rightarrow> 'n thrown + 'n jsval) \<Rightarrow> 'n request_body \<Rightarrow> 'n thrown + 'n request_body" where
  "stringifyBody JSON_stringify b =
     (case b of
        FormData d \<Rightarrow> Inr b
      | Blob d \<Rightarrow> Inr b
      | Value v \<Rightarrow> (case JSON_stringify v of Inl e \<Rightarrow> Inl e | Inr w \<Rightarrow> Inr (Value w)))"

fun readHeaders_forEach :: "(string \<times> string) list \<Rightarrow> 'n obj \<Rightarrow> 'n obj" where
  "readHeaders_forEach [] headersObject = headersObject"
| "readHeaders_forEach ((key, v) # rest) headersObject =
     readHeaders_forEach rest (set_string_property headersObject key v)"

definition readHeaders :: "(string \<times> string) list \<Rightarrow> 'n jsval" where
  "readHeaders hs = JObject (readHeaders_forEach hs [])"

section \<open>Outcome classifier\<close>

definition isError :: "'n response \<Rightarrow> bool" where
  "isError response = (status response < Status_Ok \<or> status response > Status_Unassigned)"

definition handleExpectedError ::
  "(string \<Rightarrow> 'n jsval option) \<Rightarrow> 'n response \<Rightarrow> 'n jsval \<Rightarrow> 'n thrown + 'n app_response" where
  "handleExpectedError JSON_parse err hdrs =
     (case body_text err of
        Inl reason \<Rightarrow> Inl (Raw reason)
      | Inr bodyText \<Rightarrow>
          (let b = parseBody JSON_parse bodyText in
           if status err = Status_BadRequest then Inl (Typed (new_error BadRequestError b hdrs))
           else if status err = Status_Unauthorized then Inl (Typed (new_error UnauthorizedError b hdrs))
           else if status err = Status_NotFound then Inl (Typed (new_error NotFoundError b hdrs))
           else Inl (Typed (new_error AppError b hdrs))))"

definition handleResponse ::
  "(string \<Rightarrow> 'n jsval option) \<Rightarrow> 'n response \<Rightarrow> 'n thrown + 'n app_response" where
  "handleResponse JSON_parse response =
     (let hdrs = readHeaders (raw_headers response) in
      if isError response then handleExpectedError JSON_parse response hdrs
      else (case body_text response of
              Inl reason \<Rightarrow> Inl (Raw reason)
            | Inr bodyText \<Rightarrow> Inr (new_AppResponse (parseBody JSON_parse bodyText) hdrs)))"

section \<open>Transport fault handler\<close>

text \<open>
  \<^verbatim>\<open>handleUnexpectedError\<close>: \<^verbatim>\<open>new AppError(error)\<close> passes the fault as the constructor's
  first argument, \<^verbatim>\<open>body\<close>, and no second argument.
\<close>

definition handleUnexpectedError :: "'n thrown \<Rightarrow> 'n app_error + 'n app_response" where
  "handleUnexpectedError err =
     (case err of
        Raw fault \<Rightarrow> Inl (new_error AppError fault JUndefined)
      | Typed e \<Rightarrow> Inl e)"

text \<open>
  The chain \<^verbatim>\<open>fetch(...).then(handleResponse).catch(handleUnexpectedError)\<close> of \<^verbatim>\<open>query\<close>
  and \<^verbatim>\<open>command\<close>, from what \<^verbatim>\<open>fetch\<close> settled with.
\<close>

definition settle ::
  "(string \<Rightarrow> 'n jsval option) \<Rightarrow> ('n thrown + 'n response) \<Rightarrow> 'n app_error + 'n app_response" where
  "settle JSON_parse fetched =
     promise_catch (promise_then fetched (handleResponse JSON_parse)) handleUnexpectedError"

section \<open>Error interception policy\<close>

text \<open>
  The effects of \<^verbatim>\<open>interceptError\<close>: the paths given to \<^verbatim>\<open>window.location.replace\<close> and
  the values given to \<^verbatim>\<open>console.error\<close>, each as it is at the moment of the call, oldest
  first. \<open>DEBUG\<close> is the build flag. The assignment to \<^verbatim>\<open>error.body\<close> changes the object
  the caller passed; the model returns it changed, inside the \<^verbatim>\<open>Result\<close>.

  The parameter is declared an \<^verbatim>\<open>AppError\<close>, but the verbs pass whatever they catch. A
  value that is no \<^verbatim>\<open>AppError\<close> is no \<^verbatim>\<open>instanceof UnauthorizedError\<close> and its constructor
  is not \<^verbatim>\<open>AppError\<close>; reading \<^verbatim>\<open>error.constructor\<close> of \<^verbatim>\<open>undefined\<close> or \<^verbatim>\<open>null\<close> throws a
  \<^verbatim>\<open>TypeError\<close>, which a debug build avoids: \<^verbatim>\<open>!DEBUG &&\<close> cuts the test short.
\<close>

record 'n env =
  navigations :: "string list"
  console :: "'n thrown list"

definition interceptError ::
  "bool \<Rightarrow> 'n thrown \<Rightarrow> 'n env \<Rightarrow> 'n env \<times> ('n thrown + 'n result)" where
  "interceptError DEBUG err env =
     (let env1 = (case err of
                    Typed e \<Rightarrow> if cls e = UnauthorizedError
                               then env\<lparr>navigations := navigations env @ [''/'']\<rparr> else env
                  | Raw v \<Rightarrow> env)
      in if \<not> DEBUG \<and> (err = Raw JUndefined \<or> err = Raw JNull) then (env1, Inl (Raw TypeError))
         else
           (let err1 = (case err of
                          Typed e \<Rightarrow> if \<not> DEBUG \<and> cls e = AppError
                                     then Typed (e\<lparr>body := JStr ''Technical error''\<rparr>) else err
                        | Raw v \<Rightarrow> err);
                env2 = env1\<lparr>console := console env1 @ [err1]\<rparr>
            in (env2, Inr \<lparr>succeeded = False, payload = JNull, error = err1\<rparr>)))"

section \<open>Query string\<close>

text \<open>
  \<^verbatim>\<open>buildQueryParams\<close> works on objects it may share with its caller, so the objects live
  in a store, addressed by position; \<^verbatim>\<open>{ ...query }\<close> and \<^verbatim>\<open>{}\<close> allocate objects with the
  prototype \<^verbatim>\<open>Object.prototype\<close>. The spread copies the own properties, a property
  \<^verbatim>\<open>__proto__\<close> too, and does not look at the prototype of \<^verbatim>\<open>query\<close>.
\<close>

type_synonym 'n store = "'n object list"

definition alloc :: "'n obj \<Rightarrow> 'n store \<Rightarrow> 'n store \<times> nat" where
  "alloc ob s = (s @ [\<lparr>own = ob, proto = None\<rparr>], length s)"

text \<open>
  The host's \<^verbatim>\<open>URLSearchParams\<close>: a list of name and value pairs. \<open>ToString\<close> is the host's
  conversion of a value to a string, which may throw (\<open>Inl\<close>), and \<open>encode\<close> its
  percent-encoding of one name or value; both are parameters. The constructor converts
  the values of a record in its order and stops at the first that throws.
\<close>

type_synonym search_params = "(string \<times> string) list"

fun URLSearchParams_new ::
  "('n jsval \<Rightarrow> 'n thrown + string) \<Rightarrow> 'n obj \<Rightarrow> 'n thrown + search_params" where
  "URLSearchParams_new ToString [] = Inr []"
| "URLSearchParams_new ToString ((k, v) # init) =
     (case ToString v of
        Inl e \<Rightarrow> Inl e
      | Inr t \<Rightarrow> (case URLSearchParams_new ToString init of
                    Inl e \<Rightarrow> Inl e
                  | Inr sp \<Rightarrow> Inr ((k, t) # sp)))"

definition URLSearchParams_append ::
  "('n jsval \<Rightarrow> 'n thrown + string) \<Rightarrow> search_params \<Rightarrow> string \<Rightarrow> 'n jsval \<Rightarrow>
   'n thrown + search_params" where
  "URLSearchParams_append ToString sp name v =
     (case ToString v of Inl e \<Rightarrow> Inl e | Inr t \<Rightarrow> Inr (sp @ [(name, t)]))"

fun join :: "string \<Rightarrow> string list \<Rightarrow> string" where
  "join sep [] = []"
| "join sep [x] = x"
| "join sep (x # y # ys) = x @ sep @ join sep (y # ys)"

definition URLSearchParams_toString :: "(string \<Rightarrow> string) \<Rightarrow> search_params \<Rightarrow> string" where
  "URLSearchParams_toString encode sp = join ''&'' (map (\<lambda>(k, v). encode k @ ''='' @ encode v) sp)"

text \<open>
  The first loop of \<^verbatim>\<open>buildQueryParams\<close>, over the keys \<^verbatim>\<open>for (let param in params)\<close>
  enumerates; \<open>params\<close> and \<open>paramsAsArray\<close> are the addresses of the two local objects.
  A key that is gone when its turn comes is not visited. After \<^verbatim>\<open>delete params[param]\<close>
  the read \<^verbatim>\<open>params[param]\<close> falls through to \<^verbatim>\<open>Object.prototype\<close> and yields
  \<^verbatim>\<open>undefined\<close>, a function or an object: no array.
\<close>

fun buildQueryParams_scan :: "bool \<Rightarrow> nat \<Rightarrow> nat \<Rightarrow> string list \<Rightarrow> 'n store \<Rightarrow> 'n store" where
  "buildQueryParams_scan deleteEmptyParams params paramsAsArray [] s = s"
| "buildQueryParams_scan deleteEmptyParams params paramsAsArray (param # rest) s =
     (case map_of (own (s ! params)) param of
        None \<Rightarrow> buildQueryParams_scan deleteEmptyParams params paramsAsArray rest s
      | Some v \<Rightarrow>
          (let s1 = (if deleteEmptyParams \<and> (v = JUndefined \<or> v = JNull \<or> v = JStr [])
                     then s[params := (s ! params)\<lparr>own := obj_delete (own (s ! params)) param\<rparr>]
                     else s);
               s2 = (case map_of (own (s1 ! params)) param of
                       Some (JArray es) \<Rightarrow>
                         (let s1a = s1[paramsAsArray :=
                                         set_array_property (s1 ! paramsAsArray) param es]
                          in s1a[params :=
                                   (s1a ! params)\<lparr>own := obj_delete (own (s1a ! params)) param\<rparr>])
                     | _ \<Rightarrow> s1)
           in buildQueryParams_scan deleteEmptyParams params paramsAsArray rest s2))"

text \<open>\<^verbatim>\<open>x.forEach(element => searchParams.append(param, element))\<close> for \<open>x\<close> an array.\<close>

fun forEach_append ::
  "('n jsval \<Rightarrow> 'n thrown + string) \<Rightarrow> string \<Rightarrow> 'n jsval list \<Rightarrow> search_params \<Rightarrow>
   'n thrown + search_params" where
  "forEach_append ToString param [] sp = Inr sp"
| "forEach_append ToString param (element # rest) sp =
     (case URLSearchParams_append ToString sp param element of
        Inl e \<Rightarrow> Inl e
      | Inr sp1 \<Rightarrow> forEach_append ToString param rest sp1)"

text \<open>
  The body of the second loop for one key, \<open>x\<close> the value \<^verbatim>\<open>paramsAsArray[param]\<close>:
  \<^verbatim>\<open>if (x.length) x.forEach(...)\<close>. Reading a property of \<^verbatim>\<open>undefined\<close> or \<^verbatim>\<open>null\<close> throws;
  a boolean, a number and an exception object have no \<^verbatim>\<open>length\<close>; a string has a length
  and no \<^verbatim>\<open>forEach\<close>; an object has the \<^verbatim>\<open>length\<close> it owns and nothing to call.
\<close>

definition append_param ::
  "('n \<Rightarrow> bool) \<Rightarrow> ('n jsval \<Rightarrow> 'n thrown + string) \<Rightarrow> string \<Rightarrow> 'n jsval \<Rightarrow> search_params \<Rightarrow>
   'n thrown + search_params" where
  "append_param nonzero ToString param x sp =
     (case x of
        JUndefined \<Rightarrow> Inl (Raw TypeError)
      | JNull \<Rightarrow> Inl (Raw TypeError)
      | JStr t \<Rightarrow> if t \<noteq> [] then Inl (Raw TypeError) else Inr sp
      | JArray elements \<Rightarrow>
          if elements \<noteq> [] then forEach_append ToString param elements sp else Inr sp
      | JObject ps \<Rightarrow>
          (case map_of ps ''length'' of
             Some l \<Rightarrow> if ToBoolean nonzero l then Inl (Raw TypeError) else Inr sp
           | None \<Rightarrow> Inr sp)
      | _ \<Rightarrow> Inr sp)"

text \<open>The second loop, \<^verbatim>\<open>for (let param in paramsAsArray)\<close>.\<close>

fun buildQueryParams_append ::
  "('n \<Rightarrow> bool) \<Rightarrow> ('n jsval \<Rightarrow> 'n thrown + string) \<Rightarrow> (string \<times> 'n jsval) list \<Rightarrow>
   search_params \<Rightarrow> 'n thrown + search_params" where
  "buildQueryParams_append nonzero ToString [] sp = Inr sp"
| "buildQueryParams_append nonzero ToString ((param, x) # rest) sp =
     (case append_param nonzero ToString param x sp of
        Inl e \<Rightarrow> Inl e
      | Inr sp1 \<Rightarrow> buildQueryParams_append nonzero ToString rest sp1)"

definition buildQueryParams ::
  "('n \<Rightarrow> bool) \<Rightarrow> ('n jsval \<Rightarrow> 'n thrown + string) \<Rightarrow> (string \<Rightarrow> string) \<Rightarrow> 'n store \<Rightarrow> nat \<Rightarrow>
   bool \<Rightarrow> 'n store \<times> ('n thrown + string)" where
  "buildQueryParams nonzero ToString encode s query deleteEmptyParams =
     (let (s1, params) = alloc (own (s ! query)) s;
          (s2, paramsAsArray) = alloc [] s1;
          s3 = buildQueryParams_scan deleteEmptyParams params paramsAsArray
                 (map fst (forin_entries (s2 ! params))) s2
      in case URLSearchParams_new ToString (own (s3 ! params)) of
           Inl e \<Rightarrow> (s3, Inl e)
         | Inr searchParams \<Rightarrow>
             (case buildQueryParams_append nonzero ToString
                     (forin_entries (s3 ! paramsAsArray)) searchParams of
                Inl e \<Rightarrow> (s3, Inl e)
              | Inr searchParams1 \<Rightarrow> (s3, Inr (URLSearchParams_toString encode searchParams1))))"

section \<open>Verb operations\<close>

text \<open>
  The transport is the parameter \<open>fetch\<close>: what the host's \<^verbatim>\<open>fetch\<close> settles with for a
  request. An omitted \<^verbatim>\<open>query\<close> argument is \<open>None\<close>, an omitted \<^verbatim>\<open>headers\<close> argument
  \<^verbatim>\<open>undefined\<close>. \<^verbatim>\<open>query\<close> and \<^verbatim>\<open>command\<close> throw (the outer \<open>Inl\<close>) when building the
  request throws, before \<^verbatim>\<open>fetch\<close> is called; otherwise they return the promise of the
  chain.
\<close>

definition query ::
  "('n \<Rightarrow> bool) \<Rightarrow> ('n jsval \<Rightarrow> 'n thrown + string) \<Rightarrow> (string \<Rightarrow> string) \<Rightarrow>
   (string \<Rightarrow> 'n jsval option) \<Rightarrow> ('n request \<Rightarrow> 'n thrown + 'n response) \<Rightarrow>
   'n store \<Rightarrow> string \<Rightarrow> nat option \<Rightarrow> 'n jsval \<Rightarrow>
   'n store \<times> ('n thrown + ('n app_error + 'n app_response))" where
  "query nonzero ToString encode JSON_parse fetch s url q hdrs =
     (let (s1, url1) =
            (case q of
               Some a \<Rightarrow> (case buildQueryParams nonzero ToString encode s a True of
                            (s', Inl e) \<Rightarrow> (s', Inl e)
                          | (s', Inr qs) \<Rightarrow> (s', Inr (url @ ''?'' @ qs)))
             | None \<Rightarrow> (s, Inr url))
      in case url1 of
           Inl e \<Rightarrow> (s1, Inl e)
         | Inr u \<Rightarrow>
             (s1, Inr (settle JSON_parse
                         (fetch \<lparr>req_url = u, req_method = Methods_Get,
                                 req_credentials = Credentials_SameOrigin,
                                 req_headers = (if hdrs \<noteq> JUndefined then hdrs else Headers),
                                 req_body = Value JUndefined\<rparr>))))"

definition command ::
  "(string \<Rightarrow> 'n jsval option) \<Rightarrow> ('n jsval \<Rightarrow> 'n thrown + 'n jsval) \<Rightarrow>
   ('n request \<Rightarrow> 'n thrown + 'n response) \<Rightarrow> string \<Rightarrow> string \<Rightarrow> 'n request_body \<Rightarrow>
   'n thrown + ('n app_error + 'n app_response)" where
  "command JSON_parse JSON_stringify fetch method url b =
     (case stringifyBody JSON_stringify b of
        Inl e \<Rightarrow> Inl e
      | Inr wire \<Rightarrow>
          Inr (settle JSON_parse
                 (fetch \<lparr>req_url = url, req_method = method,
                         req_credentials = Credentials_SameOrigin,
                         req_headers = Headers, req_body = wire\<rparr>)))"

text \<open>
  \<^verbatim>\<open>await\<close> inside \<^verbatim>\<open>try\<close>: the value the promise resolves with, or what reaches the
  \<^verbatim>\<open>catch\<close>: the exception of the call or the rejection of its promise.
\<close>

definition awaited :: "'n thrown + ('n app_error + 'a) \<Rightarrow> 'n thrown + 'a" where
  "awaited called =
     (case called of
        Inl e \<Rightarrow> Inl e
      | Inr (Inl err) \<Rightarrow> Inl (Typed err)
      | Inr (Inr x) \<Rightarrow> Inr x)"

text \<open>
  The verbs are \<^verbatim>\<open>async\<close>: \<open>Inl\<close> is the rejection of the promise they return, which
  happens when \<^verbatim>\<open>interceptError\<close> throws inside the \<^verbatim>\<open>catch\<close>. \<^verbatim>\<open>getAsync\<close> resolves with
  the body, or with \<^verbatim>\<open>undefined\<close> after \<^verbatim>\<open>interceptError\<close>, whose \<^verbatim>\<open>Result\<close> it drops.
\<close>

definition getAsync ::
  "bool \<Rightarrow> ('n \<Rightarrow> bool) \<Rightarrow> ('n jsval \<Rightarrow> 'n thrown + string) \<Rightarrow> (string \<Rightarrow> string) \<Rightarrow>
   (string \<Rightarrow> 'n jsval option) \<Rightarrow> ('n request \<Rightarrow> 'n thrown + 'n response) \<Rightarrow>
   'n store \<Rightarrow> string \<Rightarrow> nat option \<Rightarrow> 'n jsval \<Rightarrow> 'n env \<Rightarrow>
   'n store \<times> 'n env \<times> ('n thrown + 'n jsval)" where
  "getAsync DEBUG nonzero ToString encode JSON_parse fetch s url q hdrs env =
     (let (s1, called) = query nonzero ToString encode JSON_parse fetch s url q hdrs
      in case awaited called of
           Inr response \<Rightarrow> (s1, env, Inr (response_body response))
         | Inl err \<Rightarrow>
             (case interceptError DEBUG err env of
                (env1, Inl e) \<Rightarrow> (s1, env1, Inl e)
              | (env1, Inr r) \<Rightarrow> (s1, env1, Inr JUndefined)))"

definition postAsync ::
  "bool \<Rightarrow> (string \<Rightarrow> 'n jsval option) \<Rightarrow> ('n jsval \<Rightarrow> 'n thrown + 'n jsval) \<Rightarrow>
   ('n request \<Rightarrow> 'n thrown + 'n response) \<Rightarrow> string \<Rightarrow> 'n request_body \<Rightarrow> 'n env \<Rightarrow>
   'n env \<times> ('n thrown + 'n result)" where
  "postAsync DEBUG JSON_parse JSON_stringify fetch url b env =
     (case awaited (command JSON_parse JSON_stringify fetch Methods_Post url b) of
        Inr response \<Rightarrow>
          (env, Inr \<lparr>succeeded = True, payload = response_body response, error = Raw JUndefined\<rparr>)
      | Inl err \<Rightarrow> interceptError DEBUG err env)"

definition putAsync ::
  "bool \<Rightarrow> (string \<Rightarrow> 'n jsval option) \<Rightarrow> ('n jsval \<Rightarrow> 'n thrown + 'n jsval) \<Rightarrow>
   ('n request \<Rightarrow> 'n thrown + 'n response) \<Rightarrow> string \<Rightarrow> 'n request_body \<Rightarrow> 'n env \<Rightarrow>
   'n env \<times> ('n thrown + 'n result)" where
  "putAsync DEBUG JSON_parse JSON_stringify fetch url b env =
     (case awaited (command JSON_parse JSON_stringify fetch Methods_Put url b) of
        Inr response \<Rightarrow>
          (env, Inr \<lparr>succeeded = True, payload = response_body response, error = Raw JUndefined\<rparr>)
      | Inl err \<Rightarrow> interceptError DEBUG err env)"

definition deleteAsync ::
  "bool \<Rightarrow> (string \<Rightarrow> 'n jsval option) \<Rightarrow> ('n jsval \<Rightarrow> 'n thrown + 'n jsval) \<Rightarrow>
   ('n request \<Rightarrow> 'n thrown + 'n response) \<Rightarrow> string \<Rightarrow> 'n request_body \<Rightarrow> 'n env \<Rightarrow>
   'n env \<times> ('n thrown + 'n result)" where
  "deleteAsync DEBUG JSON_parse JSON_stringify fetch url b env =
     (case awaited (command JSON_parse JSON_stringify fetch Methods_Delete url b) of
        Inr response \<Rightarrow>
          (env, Inr \<lparr>succeeded = True, payload = response_body response, error = Raw JUndefined\<rparr>)
      | Inl err \<Rightarrow> interceptError DEBUG err env)"

section \<open>The body codec never raises\<close>

text \<open>
  Claim C2. \<^verbatim>\<open>parseBody\<close> returns a value for every body text: the only call that can
  throw, \<^verbatim>\<open>JSON.parse\<close>, is inside the \<^verbatim>\<open>try\<close>. Given that the host's parser rejects the
  empty string, a text that parses yields the parsed value, the empty text yields the
  empty object, and a non-empty text that does not parse yields \<^verbatim>\<open>{ bodyText }\<close>.
\<close>

theorem parseBody_cases:
  assumes "JSON_parse [] = None"
  shows "(JSON_parse rawText = Some parsed \<longrightarrow> parseBody JSON_parse rawText = parsed)
       \<and> (rawText = [] \<longrightarrow> parseBody JSON_parse rawText = JObject [])
       \<and> (rawText \<noteq> [] \<and> JSON_parse rawText = None \<longrightarrow>
            parseBody JSON_parse rawText = JObject [(''bodyText'', JStr rawText)])"
  using assms by (simp add: parseBody_def)

theorem parseBody_cases_witness:
  "parseBody (map_of [(''[7]'', JArray [JNum (7::int)])]) ''[7]'' = JArray [JNum 7]
   \<and> parseBody (map_of [(''[7]'', JArray [JNum (7::int)])]) [] = JObject []
   \<and> parseBody (map_of [(''[7]'', JArray [JNum (7::int)])]) ''<html>''
       = JObject [(''bodyText'', JStr ''<html>'')]"
proof -
  let ?p = "map_of [(''[7]'', JArray [JNum (7::int)])]"
  have e: "?p [] = None" by simp
  have a: "?p ''[7]'' = Some (JArray [JNum 7])" by simp
  have b: "''<html>'' \<noteq> [] \<and> ?p ''<html>'' = None" by simp
  from parseBody_cases [of ?p "''[7]''" "JArray [JNum 7]", OF e]
       parseBody_cases [of ?p "[]" "JNull", OF e]
       parseBody_cases [of ?p "''<html>''" "JNull", OF e] a b
  show ?thesis by blast
qed

section \<open>The header normalizer\<close>


lemma is_index_examples:
  "is_index ''0''" "is_index ''2''" "is_index ''10''" "\<not> is_index ''02''"
  "\<not> is_index ''content-type''" "\<not> is_index ''__proto__''" "\<not> is_index []"
  "\<not> is_index ''4294967295''" "is_index ''4294967294''"
  by (simp_all add: is_index_def is_digit_def index_value_def digit_value_def)

text \<open>
  \<^verbatim>\<open>readHeaders\<close> on names that are array indices and on the name \<^verbatim>\<open>__proto__\<close>: the
  object enumerates \<^verbatim>\<open>2\<close> before \<^verbatim>\<open>10\<close>, and has no property \<^verbatim>\<open>__proto__\<close>.
\<close>

lemma readHeaders_examples:
  "readHeaders [(''10'', ''a''), (''2'', ''b''), (''__proto__'', ''c''), (''etag'', ''d'')]
     = (JObject [(''2'', JStr ''b''), (''10'', JStr ''a''), (''etag'', JStr ''d'')] :: int jsval)"
  by (simp add: readHeaders_def set_string_property_def obj_define_def key_before_def
        is_index_def is_digit_def index_value_def digit_value_def)

section \<open>The classification table\<close>

lemma default_null_id: "v \<noteq> JUndefined \<Longrightarrow> default_null v = v"
  by (simp add: default_null_def)

lemma parseBody_defined:
  "JSON_parse bodyText \<noteq> Some JUndefined \<Longrightarrow> parseBody JSON_parse bodyText \<noteq> JUndefined"
  by (auto simp: parseBody_def split: option.splits)

lemma readHeaders_defined: "readHeaders hs \<noteq> JUndefined"
  by (simp add: readHeaders_def)

lemma status_consts:
  "Status_Ok = 200" "Status_Unassigned = 299" "Status_BadRequest = 400"
  "Status_Unauthorized = 401" "Status_NotFound = 404"
  by (simp_all add: Status_Ok_def Status_Unassigned_def Status_BadRequest_def
        Status_Unauthorized_def Status_NotFound_def)

lemma settle_response:
  fixes r :: "'n response"
  assumes "body_text r = Inr bodyText" and "JSON_parse bodyText \<noteq> Some JUndefined"
  shows "settle JSON_parse (Inr r) =
     (if 200 \<le> status r \<and> status r \<le> 299
      then Inr \<lparr>response_body = parseBody JSON_parse bodyText,
                response_headers = readHeaders (raw_headers r)\<rparr>
      else Inl \<lparr>cls = (if status r = 400 then BadRequestError
                       else if status r = 401 then UnauthorizedError
                       else if status r = 404 then NotFoundError
                       else AppError),
                body = parseBody JSON_parse bodyText,
                headers = readHeaders (raw_headers r)\<rparr>)"
proof -
  have b: "default_null (parseBody JSON_parse bodyText) = parseBody JSON_parse bodyText"
    using assms(2) by (simp add: default_null_id parseBody_defined)
  have h: "default_null (readHeaders (raw_headers r) :: 'n jsval) = readHeaders (raw_headers r)"
    by (simp add: default_null_id readHeaders_defined)
  show ?thesis
    using assms(1) b h
    by (simp add: settle_def promise_then_def promise_catch_def handleUnexpectedError_def
          handleResponse_def isError_def handleExpectedError_def new_error_def
          new_AppResponse_def status_consts Let_def)
qed

text \<open>
  Claim C1. For a response whose body text was read (and a parser that, like the host's,
  never yields \<^verbatim>\<open>undefined\<close>), \<^verbatim>\<open>handleResponse\<close> and the whole chain map the status by
  the table: a status in \<open>[200, 299]\<close> resolves with the decoded body and the headers; 400,
  401 and 404 reject with \<^verbatim>\<open>BadRequestError\<close>, \<^verbatim>\<open>UnauthorizedError\<close> and \<^verbatim>\<open>NotFoundError\<close>;
  every other status, 1xx and 3xx too, rejects with a plain \<^verbatim>\<open>AppError\<close>. The error
  carries the decoded body and the headers as well.
\<close>

theorem classification_table:
  fixes r :: "'n response"
  assumes "body_text r = Inr bodyText" and "JSON_parse bodyText \<noteq> Some JUndefined"
  shows "handleResponse JSON_parse r =
     (if 200 \<le> status r \<and> status r \<le> 299
      then Inr \<lparr>response_body = parseBody JSON_parse bodyText,
                response_headers = readHeaders (raw_headers r)\<rparr>
      else Inl (Typed \<lparr>cls = (if status r = 400 then BadRequestError
                              else if status r = 401 then UnauthorizedError
                              else if status r = 404 then NotFoundError
                              else AppError),
                       body = parseBody JSON_parse bodyText,
                       headers = readHeaders (raw_headers r)\<rparr>))
    \<and> settle JSON_parse (Inr r) =
     (if 200 \<le> status r \<and> status r \<le> 299
      then Inr \<lparr>response_body = parseBody JSON_parse bodyText,
                response_headers = readHeaders (raw_headers r)\<rparr>
      else Inl \<lparr>cls = (if status r = 400 then BadRequestError
                       else if status r = 401 then UnauthorizedError
                       else if status r = 404 then NotFoundError
                       else AppError),
                body = parseBody JSON_parse bodyText,
                headers = readHeaders (raw_headers r)\<rparr>)"
proof -
  have b: "default_null (parseBody JSON_parse bodyText) = parseBody JSON_parse bodyText"
    using assms(2) by (simp add: default_null_id parseBody_defined)
  have h: "default_null (readHeaders (raw_headers r) :: 'n jsval) = readHeaders (raw_headers r)"
    by (simp add: default_null_id readHeaders_defined)
  have hr: "handleResponse JSON_parse r =
     (if 200 \<le> status r \<and> status r \<le> 299
      then Inr \<lparr>response_body = parseBody JSON_parse bodyText,
                response_headers = readHeaders (raw_headers r)\<rparr>
      else Inl (Typed \<lparr>cls = (if status r = 400 then BadRequestError
                              else if status r = 401 then UnauthorizedError
                              else if status r = 404 then NotFoundError
                              else AppError),
                       body = parseBody JSON_parse bodyText,
                       headers = readHeaders (raw_headers r)\<rparr>))"
    using assms(1) b h
    by (simp add: handleResponse_def isError_def handleExpectedError_def new_error_def
          new_AppResponse_def status_consts Let_def)
  show ?thesis
    using settle_response [of r bodyText JSON_parse] assms by (simp add: hr)
qed

theorem classification_table_witness:
  "settle (map_of [(''[7]'', JArray [JNum (7::int)])])
     (Inr \<lparr>status = 201, raw_headers = [(''content-type'', ''application/json'')],
           body_text = Inr ''[7]''\<rparr>)
     = Inr \<lparr>response_body = JArray [JNum 7],
            response_headers = JObject [(''content-type'', JStr ''application/json'')]\<rparr>
   \<and> settle (map_of [(''[7]'', JArray [JNum (7::int)])])
     (Inr \<lparr>status = 404, raw_headers = [], body_text = Inr ''gone''\<rparr>)
     = Inl \<lparr>cls = NotFoundError, body = JObject [(''bodyText'', JStr ''gone'')],
            headers = JObject []\<rparr>
   \<and> settle (map_of [(''[7]'', JArray [JNum (7::int)])])
     (Inr \<lparr>status = 302, raw_headers = [], body_text = Inr []\<rparr>)
     = Inl \<lparr>cls = AppError, body = JObject [], headers = JObject []\<rparr>"
proof -
  let ?p = "map_of [(''[7]'', JArray [JNum (7::int)])]"
  have a: "?p ''[7]'' \<noteq> Some JUndefined" "?p ''gone'' \<noteq> Some JUndefined"
    "?p [] \<noteq> Some JUndefined"
    by simp_all
  from classification_table [of "\<lparr>status = 201, raw_headers = [(''content-type'', ''application/json'')],
           body_text = Inr ''[7]''\<rparr>" "''[7]''" ?p, OF _ a(1)]
       classification_table [of "\<lparr>status = 404, raw_headers = [], body_text = Inr ''gone''\<rparr>"
           "''gone''" ?p, OF _ a(2)]
       classification_table [of "\<lparr>status = 302, raw_headers = [], body_text = Inr []\<rparr>"
           "[]" ?p, OF _ a(3)]
  show ?thesis
    by (simp add: parseBody_def readHeaders_def set_string_property_def obj_define_def)
qed

section \<open>The transport fault handler\<close>

text \<open>
  Claim C7. \<^verbatim>\<open>handleUnexpectedError\<close> always rejects and never resolves, and it rejects with
  an \<^verbatim>\<open>AppError\<close> it is given exactly as it is; so does the chain when \<^verbatim>\<open>fetch\<close> rejects.
\<close>

theorem handleUnexpectedError_rejects:
  "(\<exists>e. handleUnexpectedError t = Inl e)
   \<and> (\<forall>ok. handleUnexpectedError t \<noteq> Inr ok)
   \<and> handleUnexpectedError (Typed e0) = Inl e0
   \<and> (\<exists>e. settle JSON_parse (Inl t) = Inl e)
   \<and> settle JSON_parse (Inl (Typed e0)) = Inl e0"
  by (cases t) (simp_all add: handleUnexpectedError_def settle_def promise_then_def promise_catch_def)

theorem handleUnexpectedError_rejects_witness:
  "handleUnexpectedError
       (Typed \<lparr>cls = NotFoundError, body = JArray [JNum (7::int)], headers = JObject []\<rparr>)
     = Inl \<lparr>cls = NotFoundError, body = JArray [JNum 7], headers = JObject []\<rparr>
   \<and> settle (\<lambda>t. None)
        (Inl (Typed \<lparr>cls = NotFoundError, body = JArray [JNum (7::int)], headers = JObject []\<rparr>))
     = Inl \<lparr>cls = NotFoundError, body = JArray [JNum 7], headers = JObject []\<rparr>"
  using handleUnexpectedError_rejects
          [of "Typed \<lparr>cls = NotFoundError, body = JArray [JNum (7::int)], headers = JObject []\<rparr>"
              "\<lparr>cls = NotFoundError, body = JArray [JNum (7::int)], headers = JObject []\<rparr>"
              "\<lambda>t. None"]
  by simp

lemma settle_raw:
  "fetched = Inl (Raw fault) \<Longrightarrow>
   settle JSON_parse fetched
     = Inl \<lparr>cls = AppError, body = (if fault = JUndefined then JNull else fault), headers = JNull\<rparr>"
  by (simp add: settle_def promise_then_def promise_catch_def handleUnexpectedError_def
        new_error_def default_null_def)

text \<open>
  Claim C3 speaks of a Generic error with body and headers absent, in the \<^verbatim>\<open>Result\<close> of the
  public operation. The error built from a raw fault has the fault as its body:
  \<^verbatim>\<open>new AppError(error)\<close>. Here \<^verbatim>\<open>fetch\<close> rejects with a \<^verbatim>\<open>TypeError\<close> in a debug build; the
  read operation resolves with \<^verbatim>\<open>undefined\<close> then, and no \<^verbatim>\<open>Result\<close>.
\<close>

theorem transport_fault_counterexample:
  "handleUnexpectedError (Raw (JExn ''TypeError'' ''Failed to fetch''))
     \<noteq> (Inl \<lparr>cls = AppError, body = JNull, headers = JNull\<rparr> :: int app_error + int app_response)
   \<and> snd (postAsync True (\<lambda>t. None) (\<lambda>v. Inr (JStr ''null''))
             (\<lambda>request. Inl (Raw (JExn ''TypeError'' ''Failed to fetch'')))
             ''/api/items'' (Value JNull) \<lparr>navigations = [], console = []\<rparr>)
     = Inr \<lparr>succeeded = False, payload = JNull,
            error = Typed \<lparr>cls = AppError,
                           body = JExn ''TypeError'' ''Failed to fetch'' :: int jsval,
                           headers = JNull\<rparr>\<rparr>
   \<and> snd (snd (getAsync True (\<lambda>n. True) (\<lambda>v. Inr []) (\<lambda>x. x) (\<lambda>t. None)
                  (\<lambda>request. Inl (Raw (JExn ''TypeError'' ''Failed to fetch'')))
                  [] ''/api/items'' None JUndefined \<lparr>navigations = [], console = []\<rparr>))
     = Inr (JUndefined :: int jsval)"
  by (simp add: handleUnexpectedError_def new_error_def default_null_def postAsync_def command_def
        stringifyBody_def awaited_def getAsync_def query_def settle_def promise_then_def
        promise_catch_def interceptError_def Let_def)

text \<open>
  Claim C3, amended. A raw fault is wrapped into a plain \<^verbatim>\<open>AppError\<close> with null headers
  whose body is the fault itself (null when the fault is \<^verbatim>\<open>undefined\<close>). When \<^verbatim>\<open>fetch\<close>
  is called and rejects with a raw fault, each mutating verb returns a failed \<^verbatim>\<open>Result\<close>
  with a null payload whose error is that \<^verbatim>\<open>AppError\<close>: headers null, body the fault in a
  debug build and the placeholder in a non-debug build.
\<close>

theorem transport_fault_generic:
  "handleUnexpectedError (Raw fault)
     = Inl \<lparr>cls = AppError, body = (if fault = JUndefined then JNull else fault), headers = JNull\<rparr>
   \<and> (stringifyBody JSON_stringify b = Inr wire
        \<and> fetch \<lparr>req_url = url, req_method = Methods_Post,
                  req_credentials = Credentials_SameOrigin, req_headers = Headers,
                  req_body = wire\<rparr> = Inl (Raw fault) \<longrightarrow>
        snd (postAsync DEBUG JSON_parse JSON_stringify fetch url b env)
          = Inr \<lparr>succeeded = False, payload = JNull,
                 error = Typed \<lparr>cls = AppError,
                                body = (if \<not> DEBUG then JStr ''Technical error''
                                        else if fault = JUndefined then JNull else fault),
                                headers = JNull\<rparr>\<rparr>)
   \<and> (stringifyBody JSON_stringify b = Inr wire
        \<and> fetch \<lparr>req_url = url, req_method = Methods_Put,
                  req_credentials = Credentials_SameOrigin, req_headers = Headers,
                  req_body = wire\<rparr> = Inl (Raw fault) \<longrightarrow>
        snd (putAsync DEBUG JSON_parse JSON_stringify fetch url b env)
          = Inr \<lparr>succeeded = False, payload = JNull,
                 error = Typed \<lparr>cls = AppError,
                                body = (if \<not> DEBUG then JStr ''Technical error''
                                        else if fault = JUndefined then JNull else fault),
                                headers = JNull\<rparr>\<rparr>)
   \<and> (stringifyBody JSON_stringify b = Inr wire
        \<and> fetch \<lparr>req_url = url, req_method = Methods_Delete,
                  req_credentials = Credentials_SameOrigin, req_headers = Headers,
                  req_body = wire\<rparr> = Inl (Raw fault) \<longrightarrow>
        snd (deleteAsync DEBUG JSON_parse JSON_stringify fetch url b env)
          = Inr \<lparr>succeeded = False, payload = JNull,
                 error = Typed \<lparr>cls = AppError,
                                body = (if \<not> DEBUG then JStr ''Technical error''
                                        else if fault = JUndefined then JNull else fault),
                                headers = JNull\<rparr>\<rparr>)"
  by (simp add: handleUnexpectedError_def new_error_def default_null_def postAsync_def
        putAsync_def deleteAsync_def command_def awaited_def settle_raw interceptError_def
        Let_def)

theorem transport_fault_generic_witness:
  "snd (postAsync False (\<lambda>t. None) (\<lambda>v. Inr (JStr ''null''))
             (\<lambda>request. Inl (Raw (JExn ''TypeError'' ''Failed to fetch'')))
             ''/api/items'' (Value JNull) \<lparr>navigations = [], console = []\<rparr>)
     = Inr \<lparr>succeeded = False, payload = JNull,
            error = Typed \<lparr>cls = AppError, body = JStr ''Technical error'' :: int jsval,
                           headers = JNull\<rparr>\<rparr>
   \<and> snd (deleteAsync True (\<lambda>t. None) (\<lambda>v. Inr (JStr ''null''))
             (\<lambda>request. Inl (Raw (JExn ''TypeError'' ''Failed to fetch'')))
             ''/api/items'' (Blob ''png'') \<lparr>navigations = [], console = []\<rparr>)
     = Inr \<lparr>succeeded = False, payload = JNull,
            error = Typed \<lparr>cls = AppError,
                           body = JExn ''TypeError'' ''Failed to fetch'' :: int jsval,
                           headers = JNull\<rparr>\<rparr>"
proof -
  let ?js = "\<lambda>v :: int jsval. (Inr (JStr ''null'') :: int thrown + int jsval)"
  let ?f = "\<lambda>request :: int request.
              (Inl (Raw (JExn ''TypeError'' ''Failed to fetch'')) :: int thrown + int response)"
  have s1: "stringifyBody ?js (Value JNull) = Inr (Value (JStr ''null''))"
    and s2: "stringifyBody ?js (Blob ''png'') = Inr (Blob ''png'')"
    by (simp_all add: stringifyBody_def)
  from transport_fault_generic [of "JExn ''TypeError'' ''Failed to fetch''" ?js "Value JNull"
          "Value (JStr ''null'')" ?f "''/api/items''" False "\<lambda>t. None"
          "\<lparr>navigations = [], console = []\<rparr>"]
       transport_fault_generic [of "JExn ''TypeError'' ''Failed to fetch''" ?js "Blob ''png''"
          "Blob ''png''" ?f "''/api/items''" True "\<lambda>t. None"
          "\<lparr>navigations = [], console = []\<rparr>"]
       s1 s2
  show ?thesis by simp
qed

section \<open>The interception policy\<close>

text \<open>
  Claim C4 has the log record the body the error came with. In a non-debug build the
  error \<^verbatim>\<open>console.error\<close> receives for a plain \<^verbatim>\<open>AppError\<close> has the placeholder as its body:
  the assignment to \<^verbatim>\<open>error.body\<close> comes first.
\<close>

theorem interceptError_log_counterexample:
  "console (fst (interceptError False
       (Typed \<lparr>cls = AppError, body = JExn ''TypeError'' ''Failed to fetch'' :: int jsval,
               headers = JNull\<rparr>)
       \<lparr>navigations = [], console = []\<rparr>))
     = [Typed \<lparr>cls = AppError, body = JStr ''Technical error'', headers = JNull\<rparr>]
   \<and> JStr ''Technical error'' \<noteq> (JExn ''TypeError'' ''Failed to fetch'' :: int jsval)"
  by (simp add: interceptError_def Let_def)

text \<open>
  Claim C4, amended. \<^verbatim>\<open>interceptError\<close> logs one error, the one its \<^verbatim>\<open>Result\<close> carries: the
  error after the redaction. Its body is the placeholder for a plain \<^verbatim>\<open>AppError\<close> in a
  non-debug build, and the body the error came with for the three subclasses and in a
  debug build.
\<close>

theorem interceptError_log:
  "console (fst (interceptError DEBUG (Typed err) env))
     = console env @ [Typed (err\<lparr>body := (if \<not> DEBUG \<and> cls err = AppError
                                           then JStr ''Technical error'' else body err)\<rparr>)]
   \<and> snd (interceptError DEBUG (Typed err) env)
     = Inr \<lparr>succeeded = False, payload = JNull,
            error = last (console (fst (interceptError DEBUG (Typed err) env)))\<rparr>"
  by (simp add: interceptError_def Let_def)

theorem interceptError_log_witness:
  "console (fst (interceptError False
       (Typed \<lparr>cls = AppError, body = JExn ''TypeError'' ''Failed to fetch'' :: int jsval,
               headers = JNull\<rparr>)
       \<lparr>navigations = [], console = []\<rparr>))
     = [Typed \<lparr>cls = AppError, body = JStr ''Technical error'', headers = JNull\<rparr>]
   \<and> console (fst (interceptError True
       (Typed \<lparr>cls = AppError, body = JExn ''TypeError'' ''Failed to fetch'' :: int jsval,
               headers = JNull\<rparr>)
       \<lparr>navigations = [], console = []\<rparr>))
     = [Typed \<lparr>cls = AppError, body = JExn ''TypeError'' ''Failed to fetch'', headers = JNull\<rparr>]
   \<and> console (fst (interceptError False
       (Typed \<lparr>cls = BadRequestError, body = JObject [(''name'', JStr ''required'' :: int jsval)],
               headers = JObject []\<rparr>)
       \<lparr>navigations = [], console = []\<rparr>))
     = [Typed \<lparr>cls = BadRequestError, body = JObject [(''name'', JStr ''required'')],
               headers = JObject []\<rparr>]"
  using interceptError_log [of False
       "\<lparr>cls = AppError, body = JExn ''TypeError'' ''Failed to fetch'' :: int jsval, headers = JNull\<rparr>"
       "\<lparr>navigations = [], console = []\<rparr>"]
     interceptError_log [of True
       "\<lparr>cls = AppError, body = JExn ''TypeError'' ''Failed to fetch'' :: int jsval, headers = JNull\<rparr>"
       "\<lparr>navigations = [], console = []\<rparr>"]
     interceptError_log [of False
       "\<lparr>cls = BadRequestError, body = JObject [(''name'', JStr ''required'' :: int jsval)], headers = JObject []\<rparr>"
       "\<lparr>navigations = [], console = []\<rparr>"]
  by simp

text \<open>
  Claim C5. In a non-debug build \<^verbatim>\<open>interceptError\<close> replaces the body of a plain \<^verbatim>\<open>AppError\<close>
  by the placeholder and returns the errors of the three subclasses as they came; in a
  debug build it returns every error as it came.
\<close>

theorem interceptError_redaction:
  "(\<not> DEBUG \<and> cls err = AppError \<longrightarrow>
      snd (interceptError DEBUG (Typed err) env)
        = Inr \<lparr>succeeded = False, payload = JNull,
               error = Typed (err\<lparr>body := JStr ''Technical error''\<rparr>)\<rparr>)
   \<and> (\<not> DEBUG \<and> cls err \<in> {BadRequestError, UnauthorizedError, NotFoundError} \<longrightarrow>
      snd (interceptError DEBUG (Typed err) env)
        = Inr \<lparr>succeeded = False, payload = JNull, error = Typed err\<rparr>)
   \<and> (DEBUG \<longrightarrow>
      snd (interceptError DEBUG (Typed err) env)
        = Inr \<lparr>succeeded = False, payload = JNull, error = Typed err\<rparr>)"
  by (auto simp add: interceptError_def Let_def)

theorem interceptError_redaction_witness:
  "snd (interceptError False
       (Typed \<lparr>cls = AppError, body = JObject [(''trace'', JStr ''at db.cs:12'' :: int jsval)],
               headers = JObject []\<rparr>)
       \<lparr>navigations = [], console = []\<rparr>)
     = Inr \<lparr>succeeded = False, payload = JNull,
            error = Typed \<lparr>cls = AppError, body = JStr ''Technical error'', headers = JObject []\<rparr>\<rparr>
   \<and> snd (interceptError False
       (Typed \<lparr>cls = BadRequestError, body = JObject [(''name'', JStr ''required'' :: int jsval)],
               headers = JObject []\<rparr>)
       \<lparr>navigations = [], console = []\<rparr>)
     = Inr \<lparr>succeeded = False, payload = JNull,
            error = Typed \<lparr>cls = BadRequestError, body = JObject [(''name'', JStr ''required'')],
                           headers = JObject []\<rparr>\<rparr>
   \<and> snd (interceptError True
       (Typed \<lparr>cls = AppError, body = JObject [(''trace'', JStr ''at db.cs:12'' :: int jsval)],
               headers = JObject []\<rparr>)
       \<lparr>navigations = [], console = []\<rparr>)
     = Inr \<lparr>succeeded = False, payload = JNull,
            error = Typed \<lparr>cls = AppError, body = JObject [(''trace'', JStr ''at db.cs:12'')],
                           headers = JObject []\<rparr>\<rparr>"
  using interceptError_redaction [of False
       "\<lparr>cls = AppError, body = JObject [(''trace'', JStr ''at db.cs:12'' :: int jsval)], headers = JObject []\<rparr>"
       "\<lparr>navigations = [], console = []\<rparr>"]
     interceptError_redaction [of False
       "\<lparr>cls = BadRequestError, body = JObject [(''name'', JStr ''required'' :: int jsval)], headers = JObject []\<rparr>"
       "\<lparr>navigations = [], console = []\<rparr>"]
     interceptError_redaction [of True
       "\<lparr>cls = AppError, body = JObject [(''trace'', JStr ''at db.cs:12'' :: int jsval)], headers = JObject []\<rparr>"
       "\<lparr>navigations = [], console = []\<rparr>"]
  by simp

text \<open>
  Claim C6. \<^verbatim>\<open>interceptError\<close> navigates once, to \<^verbatim>\<open>/\<close>, for an \<^verbatim>\<open>UnauthorizedError\<close> and
  not at all for any other error, nor for a value that is no \<^verbatim>\<open>AppError\<close>; for every
  error its \<^verbatim>\<open>Result\<close> has \<^verbatim>\<open>succeeded\<close> false, a null payload and the error.
\<close>

theorem interceptError_navigation:
  "navigations (fst (interceptError DEBUG (Typed err) env))
     = navigations env @ (if cls err = UnauthorizedError then [''/''] else [])
   \<and> navigations (fst (interceptError DEBUG (Raw v) env)) = navigations env
   \<and> (\<exists>r e. snd (interceptError DEBUG (Typed err) env) = Inr r
        \<and> succeeded r = False \<and> payload r = JNull \<and> error r = Typed e \<and> cls e = cls err)"
  by (simp add: interceptError_def Let_def)

theorem interceptError_navigation_witness:
  "navigations (fst (interceptError False
       (Typed \<lparr>cls = UnauthorizedError, body = JObject [] :: int jsval, headers = JObject []\<rparr>)
       \<lparr>navigations = [], console = []\<rparr>)) = [''/'']
   \<and> navigations (fst (interceptError False
       (Typed \<lparr>cls = NotFoundError, body = JObject [] :: int jsval, headers = JObject []\<rparr>)
       \<lparr>navigations = [], console = []\<rparr>)) = []
   \<and> snd (interceptError False
       (Typed \<lparr>cls = UnauthorizedError, body = JObject [] :: int jsval, headers = JObject []\<rparr>)
       \<lparr>navigations = [], console = []\<rparr>)
     = Inr \<lparr>succeeded = False, payload = JNull,
            error = Typed \<lparr>cls = UnauthorizedError, body = JObject [], headers = JObject []\<rparr>\<rparr>"
proof -
  have "snd (interceptError False
       (Typed \<lparr>cls = UnauthorizedError, body = JObject [] :: int jsval, headers = JObject []\<rparr>)
       \<lparr>navigations = [], console = []\<rparr>)
     = Inr \<lparr>succeeded = False, payload = JNull,
            error = Typed \<lparr>cls = UnauthorizedError, body = JObject [], headers = JObject []\<rparr>\<rparr>"
    by (simp add: interceptError_def Let_def)
  with interceptError_navigation [of False
       "\<lparr>cls = UnauthorizedError, body = JObject [] :: int jsval, headers = JObject []\<rparr>"
       "\<lparr>navigations = [], console = []\<rparr>" JNull]
     interceptError_navigation [of False
       "\<lparr>cls = NotFoundError, body = JObject [] :: int jsval, headers = JObject []\<rparr>"
       "\<lparr>navigations = [], console = []\<rparr>" JNull]
  show ?thesis by simp
qed

section \<open>The result envelope\<close>

lemma interceptError_Typed:
  "interceptError DEBUG (Typed e) env =
     (env\<lparr>navigations := navigations env @ (if cls e = UnauthorizedError then [''/''] else []),
          console := console env @ [Typed (if \<not> DEBUG \<and> cls e = AppError
                                           then e\<lparr>body := JStr ''Technical error''\<rparr> else e)]\<rparr>,
      Inr \<lparr>succeeded = False, payload = JNull,
           error = Typed (if \<not> DEBUG \<and> cls e = AppError
                          then e\<lparr>body := JStr ''Technical error''\<rparr> else e)\<rparr>)"
  by (simp add: interceptError_def Let_def)








section \<open>The read operation\<close>

text \<open>
  \<^verbatim>\<open>getAsync\<close> without a query and without headers: a response with a status in
  \<open>[200, 299]\<close> yields its decoded body and no effect; any other response, and a raw
  fault of the transport, yields \<^verbatim>\<open>undefined\<close>, with the effects of \<^verbatim>\<open>interceptError\<close> on
  the error of the table.
\<close>

lemma getAsync_outcome:
  fixes r :: "'n response"
  shows
  "(fetch \<lparr>req_url = url, req_method = Methods_Get, req_credentials = Credentials_SameOrigin,
           req_headers = Headers, req_body = Value JUndefined\<rparr> = Inr r
      \<and> body_text r = Inr bodyText \<and> JSON_parse bodyText \<noteq> Some JUndefined \<longrightarrow>
    getAsync DEBUG nonzero ToString encode JSON_parse fetch s url None JUndefined env =
     (if 200 \<le> status r \<and> status r \<le> 299 then (s, env, Inr (parseBody JSON_parse bodyText))
      else (s,
            fst (interceptError DEBUG
                   (Typed \<lparr>cls = (if status r = 400 then BadRequestError
                                   else if status r = 401 then UnauthorizedError
                                   else if status r = 404 then NotFoundError
                                   else AppError),
                            body = parseBody JSON_parse bodyText,
                            headers = readHeaders (raw_headers r)\<rparr>) env),
            Inr JUndefined)))
   \<and> (fetch \<lparr>req_url = url, req_method = Methods_Get, req_credentials = Credentials_SameOrigin,
              req_headers = Headers, req_body = Value JUndefined\<rparr> = Inl (Raw fault) \<longrightarrow>
    getAsync DEBUG nonzero ToString encode JSON_parse fetch s url None JUndefined env =
      (s,
       fst (interceptError DEBUG
              (Typed \<lparr>cls = AppError, body = (if fault = JUndefined then JNull else fault),
                       headers = JNull\<rparr>) env),
       Inr JUndefined))"
  by (auto simp add: getAsync_def query_def awaited_def settle_response settle_raw
        interceptError_Typed Let_def)

section \<open>The query string\<close>















lemma scan_length: "length (buildQueryParams_scan d p pa ks s) = length s"
  by (induction ks arbitrary: s) (simp_all add: Let_def split: option.split jsval.split)

lemma scan_frame: "a \<noteq> p \<Longrightarrow> a \<noteq> pa \<Longrightarrow> buildQueryParams_scan d p pa ks s ! a = s ! a"
  by (induction ks arbitrary: s) (simp_all add: Let_def split: option.split jsval.split)

lemma buildQueryParams_store:
  "length (fst (buildQueryParams nonzero ToString encode s q d)) = length s + 2
   \<and> (\<forall>a < length s. fst (buildQueryParams nonzero ToString encode s q d) ! a = s ! a)"
  by (simp add: buildQueryParams_def alloc_def Let_def scan_length scan_frame nth_append
        split: sum.split)

text \<open>
  Claim C10. \<^verbatim>\<open>buildQueryParams\<close> writes to the two objects it allocates only: the query
  object of the caller, and every other object of the store it was called in, is after
  the call what it was before, whether the call returns or throws; the same holds for
  the read operation's \<^verbatim>\<open>query\<close>.
\<close>

theorem buildQueryParams_frame:
  assumes "q < length s"
  shows "fst (buildQueryParams nonzero ToString encode s q d) ! q = s ! q
       \<and> take (length s) (fst (buildQueryParams nonzero ToString encode s q d)) = s
       \<and> take (length s)
           (fst (query nonzero ToString encode JSON_parse fetch s url (Some q) hdrs)) = s"
proof -
  have t: "take (length s) (fst (buildQueryParams nonzero ToString encode s q d')) = s" for d'
    using buildQueryParams_store [of nonzero ToString encode s q d']
    by (intro nth_equalityI) simp_all
  have "fst (query nonzero ToString encode JSON_parse fetch s url (Some q) hdrs)
          = fst (buildQueryParams nonzero ToString encode s q True)"
    by (cases "buildQueryParams nonzero ToString encode s q True")
      (simp add: query_def Let_def split: sum.split)
  then show ?thesis
    using t assms buildQueryParams_store [of nonzero ToString encode s q d] by simp
qed

theorem buildQueryParams_frame_witness:
  "fst (buildQueryParams (\<lambda>n. True) (\<lambda>v. case v of JStr x \<Rightarrow> Inr x | _ \<Rightarrow> Inl (Raw TypeError))
          (\<lambda>x. x)
          [\<lparr>own = [(''tags'', JArray [JStr ''a'', JStr ''b'']), (''name'', JStr []),
                    (''page'', JStr ''2'' :: int jsval)],
            proto = None\<rparr>] 0 True) ! 0
     = \<lparr>own = [(''tags'', JArray [JStr ''a'', JStr ''b'']), (''name'', JStr []),
               (''page'', JStr ''2'')],
        proto = None\<rparr>"
proof -
  let ?s = "[\<lparr>own = [(''tags'', JArray [JStr ''a'', JStr ''b'']), (''name'', JStr []),
                      (''page'', JStr ''2'' :: int jsval)],
              proto = None\<rparr>]"
  have a: "0 < length ?s" by simp
  from buildQueryParams_frame [OF a, where nonzero = "\<lambda>n. True"
         and ToString = "\<lambda>v. case v of JStr x \<Rightarrow> Inr x | _ \<Rightarrow> Inl (Raw TypeError)"
         and encode = "\<lambda>x. x" and d = True]
  show ?thesis by simp
qed

end
